theory Spec2Isabelle
  imports Main "HOL-Library.Word"
begin

section \<open>Data model\<close>

text \<open>
  Python \<^verbatim>\<open>bytes\<close> are lists of 8-bit words; a Python \<^verbatim>\<open>str\<close> holding decoded
  text, a prompt or an answer is a list of Unicode code points. File names, MIME types and
  metadata keys are only compared and concatenated, and are kept as \<^typ>\<open>string\<close>.
\<close>

type_synonym byte = "8 word"
type_synonym pystr = "nat list"

text \<open>An uploaded file as the loader uses it: \<^verbatim>\<open>file.name\<close>, \<^verbatim>\<open>file.type\<close> and the
  bytes \<^verbatim>\<open>file.read()\<close> returns.\<close>

record uploaded_file =
  file_name :: string
  file_type :: string
  file_content :: "byte list"

text \<open>\<^verbatim>\<open>Document(text=..., metadata={...})\<close>; the metadata dictionary is kept as an
  association list.\<close>

record document =
  doc_text :: pystr
  doc_metadata :: "(string \<times> string) list"

text \<open>Exceptions that can reach the \<^verbatim>\<open>except Exception\<close> of the loader or leave
  \<^verbatim>\<open>main\<close>: the decoder's, the file system's, and whatever an external service raises.\<close>

datatype exn =
    UnicodeDecodeError | FileNotFoundError | OSError | AttributeError | ServiceError string

text \<open>The calls on \<^verbatim>\<open>st\<close> that report something to the user, in the order made.\<close>

datatype ui =
    Warning_api_key
  | Sidebar_success nat
  | Success_done
  | Error_no_documents
  | Error_unsupported string
  | Error_processing string exn
  | Info_upload_first
  | Chat_message string pystr

text \<open>The working directory: a map from paths to file contents.\<close>

type_synonym fs = "string \<rightharpoonup> byte list"

section \<open>\<^verbatim>\<open>bytes.decode('utf-8')\<close>\<close>

text \<open>
  The strict UTF-8 decoder of the Python standard library: shortest-form sequences only,
  no surrogates, nothing above U+10FFFF. Any other byte sequence raises
  \<^verbatim>\<open>UnicodeDecodeError\<close>.
\<close>

definition is_cont :: "nat \<Rightarrow> bool" where
  "is_cont b \<longleftrightarrow> 128 \<le> b \<and> b < 192"

fun decode_utf8 :: "nat list \<Rightarrow> nat list option" where
  "decode_utf8 [] = Some []"
| "decode_utf8 (b0 # bs) =
    (if b0 < 128 then map_option ((#) b0) (decode_utf8 bs)
     else if 194 \<le> b0 \<and> b0 < 224 then
       (case bs of
          b1 # r \<Rightarrow>
            if is_cont b1
            then map_option ((#) ((b0 - 192) * 64 + (b1 - 128))) (decode_utf8 r)
            else None
        | _ \<Rightarrow> None)
     else if 224 \<le> b0 \<and> b0 < 240 then
       (case bs of
          b1 # b2 # r \<Rightarrow>
            (let cp = (b0 - 224) * 4096 + (b1 - 128) * 64 + (b2 - 128) in
             if is_cont b1 \<and> is_cont b2 \<and> 2048 \<le> cp \<and> \<not> (55296 \<le> cp \<and> cp < 57344)
             then map_option ((#) cp) (decode_utf8 r)
             else None)
        | _ \<Rightarrow> None)
     else if 240 \<le> b0 \<and> b0 < 245 then
       (case bs of
          b1 # b2 # b3 # r \<Rightarrow>
            (let cp = (b0 - 240) * 262144 + (b1 - 128) * 4096 + (b2 - 128) * 64 + (b3 - 128) in
             if is_cont b1 \<and> is_cont b2 \<and> is_cont b3 \<and> 65536 \<le> cp \<and> cp < 1114112
             then map_option ((#) cp) (decode_utf8 r)
             else None)
        | _ \<Rightarrow> None)
     else None)"

definition decode :: "byte list \<Rightarrow> exn + pystr" where
  "decode content =
    (case decode_utf8 (map unat content) of
       None \<Rightarrow> Inl UnicodeDecodeError
     | Some text_content \<Rightarrow> Inr text_content)"

section \<open>The document loader: \<^verbatim>\<open>process_uploaded_files\<close>\<close>

text \<open>
  \<^verbatim>\<open>PDFReader.load_data(path)\<close> is an external service. It is a parameter \<open>reader\<close>: a
  function of the path and of the bytes stored there, which raises or returns Documents.
  Opening a path that does not exist raises \<^verbatim>\<open>FileNotFoundError\<close>.
\<close>

type_synonym pdf_reader = "string \<Rightarrow> byte list \<Rightarrow> exn + document list"

definition load_data :: "pdf_reader \<Rightarrow> fs \<Rightarrow> string \<Rightarrow> exn + document list" where
  "load_data reader files path =
    (case files path of
       None \<Rightarrow> Inl FileNotFoundError
     | Some stored \<Rightarrow> reader path stored)"

text \<open>
  \<^verbatim>\<open>open(path, "wb")\<close> followed by \<^verbatim>\<open>f.write(content)\<close>. The operating system
  refuses some paths: one that names a directory that does not exist, one whose name is
  too long, one in a directory that cannot be written. Which paths it refuses, and with
  which exception, is a parameter \<open>refused\<close>; a refused path is not created.
\<close>

type_synonym open_errors = "string \<Rightarrow> exn option"

definition open_wb :: "open_errors \<Rightarrow> fs \<Rightarrow> string \<Rightarrow> byte list \<Rightarrow> exn + fs" where
  "open_wb refused files path content =
    (case refused path of
       Some e \<Rightarrow> Inl e
     | None \<Rightarrow> Inr (files(path \<mapsto> content)))"

text \<open>\<^verbatim>\<open>os.remove(path)\<close>: deletes the file, raises when there is none.\<close>

definition os_remove :: "fs \<Rightarrow> string \<Rightarrow> exn + fs" where
  "os_remove files path =
    (if files path = None then Inl FileNotFoundError else Inr (files(path := None)))"

text \<open>The f-string \<^verbatim>\<open>f"temp_{file.name}"\<close>.\<close>

definition temp_path :: "string \<Rightarrow> string" where
  "temp_path n = ''temp_'' @ n"

text \<open>
  The loop state: the list \<^verbatim>\<open>documents\<close>, the messages shown so far, and the file system.
  \<open>process_file\<close> is one iteration of the \<^verbatim>\<open>for\<close> loop, with its \<^verbatim>\<open>try\<close> /
  \<^verbatim>\<open>except Exception\<close>: an exception raised anywhere in the body (by the decoder, by
  writing the staging file, by the extraction, by the removal) ends the iteration with the
  state reached so far and one \<^verbatim>\<open>st.error\<close> naming the file.
\<close>

type_synonym loader_state = "document list \<times> ui list \<times> fs"

definition process_file ::
    "pdf_reader \<Rightarrow> open_errors \<Rightarrow> uploaded_file \<Rightarrow> loader_state \<Rightarrow> loader_state" where
  "process_file reader refused file st =
    (case st of (documents, out, files) \<Rightarrow>
      (let content = file_content file in
       if file_type file = ''text/plain'' then
         (case decode content of
            Inl e \<Rightarrow> (documents, out @ [Error_processing (file_name file) e], files)
          | Inr text_content \<Rightarrow>
              (documents @
                 [\<lparr>doc_text = text_content,
                   doc_metadata = [(''filename'', file_name file)]\<rparr>],
               out, files))
       else if file_type file = ''application/pdf'' then
         (case open_wb refused files (temp_path (file_name file)) content of
            Inl e \<Rightarrow> (documents, out @ [Error_processing (file_name file) e], files)
          | Inr files1 \<Rightarrow>
              (case load_data reader files1 (temp_path (file_name file)) of
                 Inl e \<Rightarrow> (documents, out @ [Error_processing (file_name file) e], files1)
               | Inr pdf_docs \<Rightarrow>
                   (case os_remove files1 (temp_path (file_name file)) of
                      Inl e \<Rightarrow>
                        (documents @ pdf_docs,
                         out @ [Error_processing (file_name file) e], files1)
                    | Inr files2 \<Rightarrow> (documents @ pdf_docs, out, files2))))
       else (documents, out @ [Error_unsupported (file_name file)], files)))"

fun process_loop ::
    "pdf_reader \<Rightarrow> open_errors \<Rightarrow> uploaded_file list \<Rightarrow> loader_state \<Rightarrow> loader_state" where
  "process_loop reader refused [] st = st"
| "process_loop reader refused (file # rest) st =
     process_loop reader refused rest (process_file reader refused file st)"

text \<open>The function returns \<^verbatim>\<open>documents\<close>; the messages and the file system are its
  effects.\<close>

definition process_uploaded_files ::
    "pdf_reader \<Rightarrow> open_errors \<Rightarrow> uploaded_file list \<Rightarrow> fs \<Rightarrow>
     document list \<times> ui list \<times> fs" where
  "process_uploaded_files reader refused uploaded_files files =
     process_loop reader refused uploaded_files ([], [], files)"

text \<open>
  What one file contributes, read off the loop body for comparison with the loop: the
  Documents it adds and the messages it causes.
\<close>

definition file_documents :: "pdf_reader \<Rightarrow> open_errors \<Rightarrow> uploaded_file \<Rightarrow> document list" where
  "file_documents reader refused file =
    (if file_type file = ''text/plain'' then
       (case decode (file_content file) of
          Inl e \<Rightarrow> []
        | Inr t \<Rightarrow> [\<lparr>doc_text = t, doc_metadata = [(''filename'', file_name file)]\<rparr>])
     else if file_type file = ''application/pdf'' then
       (case refused (temp_path (file_name file)) of
          Some e \<Rightarrow> []
        | None \<Rightarrow>
            (case reader (temp_path (file_name file)) (file_content file) of
               Inl e \<Rightarrow> []
             | Inr pdf_docs \<Rightarrow> pdf_docs))
     else [])"

definition file_errors :: "pdf_reader \<Rightarrow> open_errors \<Rightarrow> uploaded_file \<Rightarrow> ui list" where
  "file_errors reader refused file =
    (if file_type file = ''text/plain'' then
       (case decode (file_content file) of
          Inl e \<Rightarrow> [Error_processing (file_name file) e]
        | Inr t \<Rightarrow> [])
     else if file_type file = ''application/pdf'' then
       (case refused (temp_path (file_name file)) of
          Some e \<Rightarrow> [Error_processing (file_name file) e]
        | None \<Rightarrow>
            (case reader (temp_path (file_name file)) (file_content file) of
               Inl e \<Rightarrow> [Error_processing (file_name file) e]
             | Inr pdf_docs \<Rightarrow> []))
     else [Error_unsupported (file_name file)])"

section \<open>Session state and \<^verbatim>\<open>main\<close>\<close>

text \<open>
  An entry of \<^verbatim>\<open>st.session_state.messages\<close>: the dictionary
  \<^verbatim>\<open>{"role": ..., "content": ...}\<close>.
\<close>

record message =
  role :: string
  content :: pystr

text \<open>
  \<^verbatim>\<open>st.session_state\<close> with its two keys; \<open>None\<close> is a key that is not set. The chat
  engine is an object of an external library, of a type \<open>'eng\<close> left open.
\<close>

record 'eng session_state =
  messages :: "message list option"
  chat_engine :: "'eng option"

text \<open>
  The external services \<^verbatim>\<open>main\<close> calls, as parameters, with the paths the operating
  system refuses to create. Each service may raise.
  \<^verbatim>\<open>chat\<close> is a method of the engine object kept in the session, so it also returns the
  engine as the call leaves it; its result is the text \<^verbatim>\<open>response.response\<close>.
\<close>

record ('idx, 'eng) services =
  pdf_load_data :: pdf_reader
  open_refused :: open_errors
  from_documents :: "document list \<Rightarrow> exn + 'idx"
  as_chat_engine :: "'idx \<Rightarrow> exn + 'eng"
  chat :: "'eng \<Rightarrow> pystr \<Rightarrow> (exn + pystr) \<times> 'eng"

definition initialize_chat_engine :: "('idx, 'eng) services \<Rightarrow> 'idx \<Rightarrow> exn + 'eng" where
  "initialize_chat_engine env index = as_chat_engine env index"

text \<open>
  How one run of the script ends: it reaches its last line, it executes one of the two
  \<^verbatim>\<open>return\<close> statements, it calls \<^verbatim>\<open>st.rerun()\<close>, or an exception leaves
  \<^verbatim>\<open>main\<close>.
\<close>

datatype outcome = Completed | Returned | Rerun | Raised exn

text \<open>The transcript of a session: its messages, none when the key is not set.\<close>

definition transcript :: "'eng session_state \<Rightarrow> message list" where
  "transcript s = (case messages s of None \<Rightarrow> [] | Some ms \<Rightarrow> ms)"

text \<open>
  Lines 89 to 104: processing the upload and building the index. \<open>Inl\<close> is a run that ends
  here, \<open>Inr\<close> one that goes on. \<^verbatim>\<open>initialize_llm_and_settings\<close> writes a global of the
  library only and is left out.
\<close>

definition upload_block ::
    "('idx, 'eng) services \<Rightarrow> uploaded_file list \<Rightarrow> 'eng session_state \<Rightarrow> fs \<Rightarrow>
     ('eng session_state \<times> fs \<times> ui list \<times> outcome) + ('eng session_state \<times> fs \<times> ui list)" where
  "upload_block env uploaded_files s files =
    (if uploaded_files \<noteq> [] then
       (case process_uploaded_files (pdf_load_data env) (open_refused env) uploaded_files files of
          (documents, out, files1) \<Rightarrow>
            if documents \<noteq> [] then
              (case from_documents env documents of
                 Inl e \<Rightarrow> Inl (s, files1, out @ [Sidebar_success (length documents)], Raised e)
               | Inr index \<Rightarrow>
                   (case initialize_chat_engine env index of
                      Inl e \<Rightarrow>
                        Inl (s, files1, out @ [Sidebar_success (length documents)], Raised e)
                    | Inr engine \<Rightarrow>
                        Inr (s\<lparr>chat_engine := Some engine\<rparr>, files1,
                             out @ [Sidebar_success (length documents), Success_done])))
            else Inl (s, files1, out @ [Error_no_documents], Returned))
     else Inr (s, files, []))"

text \<open>Lines 107 and 108.\<close>

definition init_messages :: "'eng session_state \<Rightarrow> 'eng session_state" where
  "init_messages s = (if messages s = None then s\<lparr>messages := Some []\<rparr> else s)"

text \<open>Lines 111 to 113: the history is shown.\<close>

definition show_messages :: "'eng session_state \<Rightarrow> ui list" where
  "show_messages s = map (\<lambda>m. Chat_message (role m) (content m)) (transcript s)"

text \<open>
  Lines 116 to 137. \<^verbatim>\<open>st.chat_input\<close> is called only when the engine key is set; its
  value \<open>prompt\<close> counts when it is a non-empty string. Appending to a
  \<^verbatim>\<open>messages\<close> key that is not set would raise \<^verbatim>\<open>AttributeError\<close>. The debug
  expander only displays and is left out.
\<close>

definition chat_block ::
    "('idx, 'eng) services \<Rightarrow> pystr option \<Rightarrow> 'eng session_state \<Rightarrow>
     ('eng session_state \<times> ui list \<times> outcome) + ('eng session_state \<times> ui list)" where
  "chat_block env prompt s =
    (case chat_engine s of
       None \<Rightarrow> Inr (s, [Info_upload_first])
     | Some engine \<Rightarrow>
         (case prompt of
            None \<Rightarrow> Inr (s, [])
          | Some p \<Rightarrow>
              if p = [] then Inr (s, [])
              else
                (case messages s of
                   None \<Rightarrow> Inl (s, [], Raised AttributeError)
                 | Some ms \<Rightarrow>
                     (let s1 = s\<lparr>messages := Some (ms @ [\<lparr>role = ''user'', content = p\<rparr>])\<rparr> in
                      case chat env engine p of
                        (Inl e, engine') \<Rightarrow>
                          Inl (s1\<lparr>chat_engine := Some engine'\<rparr>,
                               [Chat_message ''user'' p], Raised e)
                      | (Inr answer, engine') \<Rightarrow>
                          Inr (s1\<lparr>chat_engine := Some engine',
                                  messages := Some (ms @ [\<lparr>role = ''user'', content = p\<rparr>,
                                    \<lparr>role = ''assistant'', content = answer\<rparr>])\<rparr>,
                               [Chat_message ''user'' p, Chat_message ''assistant'' answer])))))"

text \<open>Lines 140 to 142: the reset button.\<close>

definition reset_block :: "bool \<Rightarrow> 'eng session_state \<Rightarrow> 'eng session_state \<times> outcome" where
  "reset_block button s = (if button then (s\<lparr>messages := Some []\<rparr>, Rerun) else (s, Completed))"

text \<open>
  One run of \<^verbatim>\<open>main\<close>. Its inputs are the widget values of the run: the API key typed
  in the sidebar, the files in the uploader, the submitted prompt if any, and whether the
  reset button was clicked. It starts from the session state and the file system and
  returns both, with the messages shown and the way the run ended.
\<close>

definition main ::
    "('idx, 'eng) services \<Rightarrow> string \<Rightarrow> uploaded_file list \<Rightarrow> pystr option \<Rightarrow> bool \<Rightarrow>
     'eng session_state \<times> fs \<Rightarrow> 'eng session_state \<times> fs \<times> ui list \<times> outcome" where
  "main env openai_api_key uploaded_files prompt button st =
    (case st of (s, files) \<Rightarrow>
      if openai_api_key = [] then (s, files, [Warning_api_key], Returned)
      else
        (case upload_block env uploaded_files s files of
           Inl stopped \<Rightarrow> stopped
         | Inr (s1, files1, out1) \<Rightarrow>
             (let s2 = init_messages s1;
                  out2 = out1 @ show_messages s2 in
              case chat_block env prompt s2 of
                Inl (s3, out3, raised) \<Rightarrow> (s3, files1, out2 @ out3, raised)
              | Inr (s3, out3) \<Rightarrow>
                  (case reset_block button s3 of
                     (s4, ended) \<Rightarrow> (s4, files1, out2 @ out3, ended)))))"

text \<open>
  The session states the application can be in: a fresh session has neither key set, and
  every run of the script, whatever its inputs and the file system, leads to the next.
\<close>

inductive reachable :: "('idx, 'eng) services \<Rightarrow> 'eng session_state \<Rightarrow> bool"
  for env :: "('idx, 'eng) services" where
  fresh: "reachable env \<lparr>messages = None, chat_engine = None\<rparr>"
| run: "reachable env s \<Longrightarrow>
    main env openai_api_key uploaded_files prompt button (s, files) = (s', files', out, ended) \<Longrightarrow>
    reachable env s'"

text \<open>
  A file whose processing fails: a text file that does not decode, a PDF file whose
  staging file cannot be written or whose extraction raises, a file of another type.
\<close>

definition file_fails :: "pdf_reader \<Rightarrow> open_errors \<Rightarrow> uploaded_file \<Rightarrow> bool" where
  "file_fails reader refused file \<longleftrightarrow>
    (if file_type file = ''text/plain'' then isl (decode (file_content file))
     else if file_type file = ''application/pdf''
       then refused (temp_path (file_name file)) \<noteq> None \<or>
            isl (reader (temp_path (file_name file)) (file_content file))
     else True)"

text \<open>The file a per-file error message names.\<close>

fun error_names :: "ui \<Rightarrow> string option" where
  "error_names (Error_unsupported n) = Some n"
| "error_names (Error_processing n e) = Some n"
| "error_names other = None"

section \<open>Example services and inputs\<close>

text \<open>
  A PDF reader that accepts files starting with the four bytes \<^verbatim>\<open>%PDF\<close> and returns
  the rest as one Document, and raises on anything else; an operating system that refuses
  a path through a subdirectory (there is none) and a path of more than 255 characters;
  an index that is the list of its
  Documents; an engine that counts its calls, answers with the indexed text and raises
  from the third call on.
\<close>

definition demo_reader :: pdf_reader where
  "demo_reader path stored =
    (if take 4 stored = [0x25, 0x50, 0x44, 0x46]
     then Inr [\<lparr>doc_text = map unat (drop 4 stored), doc_metadata = [(''file_name'', path)]\<rparr>]
     else Inl (ServiceError ''PdfReadError''))"

definition demo_refused :: open_errors where
  "demo_refused path =
    (if CHR ''/'' \<in> set path then Some FileNotFoundError
     else if 255 < length path then Some OSError
     else None)"

definition demo_chat ::
    "document list \<times> nat \<Rightarrow> pystr \<Rightarrow> (exn + pystr) \<times> (document list \<times> nat)" where
  "demo_chat engine p =
    (case engine of (docs, n) \<Rightarrow>
      if n < 2 then (Inr (concat (map doc_text docs)), (docs, Suc n))
      else (Inl (ServiceError ''UpstreamError''), (docs, n)))"

definition demo_env :: "(document list, document list \<times> nat) services" where
  "demo_env =
    \<lparr>pdf_load_data = demo_reader,
     open_refused = demo_refused,
     from_documents =
       (\<lambda>docs. if docs = [] then Inl (ServiceError ''IndexingError'') else Inr docs),
     as_chat_engine = (\<lambda>index. Inr (index, 0)),
     chat = demo_chat\<rparr>"

text \<open>The same services with an index builder that raises.\<close>

definition rate_limited_env :: "(document list, document list \<times> nat) services" where
  "rate_limited_env =
    demo_env\<lparr>from_documents := (\<lambda>docs. Inl (ServiceError ''RateLimitError''))\<rparr>"

definition no_files :: fs where
  "no_files = Map.empty"

definition sky_txt :: uploaded_file where
  "sky_txt = \<lparr>file_name = ''sky.txt'', file_type = ''text/plain'',
     file_content = [0x62, 0x6C, 0x75, 0x65]\<rparr>"

definition empty_txt :: uploaded_file where
  "empty_txt = \<lparr>file_name = ''empty.txt'', file_type = ''text/plain'', file_content = []\<rparr>"

definition latin1_txt :: uploaded_file where
  "latin1_txt = \<lparr>file_name = ''latin1.txt'', file_type = ''text/plain'',
     file_content = [0x63, 0x61, 0x66, 0xE9]\<rparr>"

definition broken_pdf :: uploaded_file where
  "broken_pdf = \<lparr>file_name = ''broken.pdf'', file_type = ''application/pdf'',
     file_content = [0x00, 0x01]\<rparr>"

definition good_pdf :: uploaded_file where
  "good_pdf = \<lparr>file_name = ''good.pdf'', file_type = ''application/pdf'',
     file_content = [0x25, 0x50, 0x44, 0x46, 0x68, 0x69]\<rparr>"

definition nested_pdf :: uploaded_file where
  "nested_pdf = \<lparr>file_name = ''sub/x.pdf'', file_type = ''application/pdf'',
     file_content = [0x25, 0x50, 0x44, 0x46, 0x68, 0x69]\<rparr>"

definition logo_png :: uploaded_file where
  "logo_png = \<lparr>file_name = ''logo.png'', file_type = ''image/png'',
     file_content = [0x89, 0x50]\<rparr>"

definition sky_document :: document where
  "sky_document = \<lparr>doc_text = [98, 108, 117, 101], doc_metadata = [(''filename'', ''sky.txt'')]\<rparr>"

definition good_document :: document where
  "good_document = \<lparr>doc_text = [104, 105], doc_metadata = [(''file_name'', ''temp_good.pdf'')]\<rparr>"

definition user_says :: "pystr \<Rightarrow> message" where
  "user_says p = \<lparr>role = ''user'', content = p\<rparr>"

definition assistant_says :: "pystr \<Rightarrow> message" where
  "assistant_says a = \<lparr>role = ''assistant'', content = a\<rparr>"

definition fresh_session :: "(document list \<times> nat) session_state" where
  "fresh_session = \<lparr>messages = None, chat_engine = None\<rparr>"

definition ready_session :: "(document list \<times> nat) session_state" where
  "ready_session = \<lparr>messages = Some [], chat_engine = Some ([sky_document], 0)\<rparr>"

definition talked_session :: "(document list \<times> nat) session_state" where
  "talked_session =
    \<lparr>messages = Some [user_says [104, 105], assistant_says [98, 108, 117, 101]],
     chat_engine = Some ([sky_document], 1)\<rparr>"

definition exhausted_session :: "(document list \<times> nat) session_state" where
  "exhausted_session = \<lparr>messages = Some [], chat_engine = Some ([sky_document], 2)\<rparr>"

text \<open>The property every reachable session has: without an engine there are no messages.\<close>

definition uninitialized_empty :: "'eng session_state \<Rightarrow> bool" where
  "uninitialized_empty s \<longleftrightarrow> (chat_engine s = None \<longrightarrow> transcript s = [])"

section \<open>The loader, file by file\<close>

lemma load_data_written:
  "load_data reader (files(path \<mapsto> stored)) path = reader path stored"
  by (simp add: load_data_def)

lemma os_remove_written:
  "os_remove (files(path \<mapsto> stored)) path = Inr (files(path := None))"
  by (simp add: os_remove_def)

lemma process_file_results:
  "\<exists>files'. process_file reader refused file (documents, out, files) =
     (documents @ file_documents reader refused file, out @ file_errors reader refused file, files')"
proof (cases "refused (temp_path (file_name file))")
  case None
  then show ?thesis
    by (simp add: process_file_def file_documents_def file_errors_def Let_def open_wb_def
        load_data_written os_remove_written split: sum.splits)
next
  case (Some e)
  then show ?thesis
    by (simp add: process_file_def file_documents_def file_errors_def Let_def open_wb_def
        split: sum.splits)
qed

lemma process_loop_results:
  "\<exists>files'. process_loop reader refused uploaded_files (documents, out, files) =
     (documents @ concat (map (file_documents reader refused) uploaded_files),
      out @ concat (map (file_errors reader refused) uploaded_files), files')"
proof (induction uploaded_files arbitrary: documents out files)
  case Nil
  show ?case by simp
next
  case (Cons f rest)
  obtain files1 where step: "process_file reader refused f (documents, out, files) =
      (documents @ file_documents reader refused f, out @ file_errors reader refused f, files1)"
    using process_file_results by blast
  from Cons.IH [of "documents @ file_documents reader refused f"
      "out @ file_errors reader refused f" files1]
  show ?case by (simp add: step)
qed

lemma process_uploaded_files_results:
  "\<exists>files'. process_uploaded_files reader refused uploaded_files files =
     (concat (map (file_documents reader refused) uploaded_files),
      concat (map (file_errors reader refused) uploaded_files), files')"
  using process_loop_results [of reader refused uploaded_files "[]" "[]" files]
  by (simp add: process_uploaded_files_def)

lemma process_uploaded_files_documents:
  "fst (process_uploaded_files reader refused uploaded_files files) =
     concat (map (file_documents reader refused) uploaded_files)"
  using process_uploaded_files_results [of reader refused uploaded_files files] by auto

lemma process_uploaded_files_errors:
  "fst (snd (process_uploaded_files reader refused uploaded_files files)) =
     concat (map (file_errors reader refused) uploaded_files)"
  using process_uploaded_files_results [of reader refused uploaded_files files] by auto

lemma upload_block_continues:
  assumes "upload_block env uploaded_files s files = Inr (s1, files1, out1)"
  shows "messages s1 = messages s"
    and "uploaded_files = [] \<Longrightarrow> s1 = s \<and> files1 = files"
  using assms
  by (auto simp: upload_block_def split: if_splits prod.splits sum.splits)

lemma upload_block_stops:
  assumes "upload_block env uploaded_files s files = Inl (s1, files1, out1, ended)"
  shows "s1 = s" and "ended \<noteq> Completed" and "ended \<noteq> Rerun"
  using assms
  by (auto simp: upload_block_def split: if_splits prod.splits sum.splits)

lemma transcript_init_messages: "transcript (init_messages s) = transcript s"
  by (simp add: transcript_def init_messages_def)

lemma messages_init_messages: "messages (init_messages s) = Some (transcript s)"
  by (simp add: transcript_def init_messages_def split: option.splits)

lemma chat_engine_init_messages: "chat_engine (init_messages s) = chat_engine s"
  by (simp add: init_messages_def)

lemma main_failed_turn:
  assumes "openai_api_key \<noteq> []"
    and "upload_block env uploaded_files s files = Inr (s1, files1, out1)"
    and "chat_engine s1 = Some engine"
    and "p \<noteq> []"
    and "chat env engine p = (Inl e, engine')"
  shows "\<exists>out. main env openai_api_key uploaded_files (Some p) button (s, files) =
     (s1\<lparr>messages := Some (transcript s @ [\<lparr>role = ''user'', content = p\<rparr>]),
         chat_engine := Some engine'\<rparr>, files1, out, Raised e)"
  using assms upload_block_continues(1) [OF assms(2)]
  by (simp add: main_def chat_block_def Let_def messages_init_messages chat_engine_init_messages
      transcript_def init_messages_def split: option.splits)

lemma main_successful_turn:
  assumes "openai_api_key \<noteq> []"
    and "upload_block env uploaded_files s files = Inr (s1, files1, out1)"
    and "chat_engine s1 = Some engine"
    and "p \<noteq> []"
    and "chat env engine p = (Inr answer, engine')"
  shows "\<exists>out. main env openai_api_key uploaded_files (Some p) False (s, files) =
     (s1\<lparr>messages := Some (transcript s @ [\<lparr>role = ''user'', content = p\<rparr>,
            \<lparr>role = ''assistant'', content = answer\<rparr>]),
         chat_engine := Some engine'\<rparr>, files1, out, Completed)"
  using assms upload_block_continues(1) [OF assms(2)]
  by (simp add: main_def chat_block_def Let_def messages_init_messages chat_engine_init_messages
      reset_block_def transcript_def init_messages_def split: option.splits)

lemma chat_block_uninitialized:
  "chat_engine s = None \<Longrightarrow> chat_block env prompt s = Inr (s, [Info_upload_first])"
  by (simp add: chat_block_def)

lemma chat_block_engine:
  "chat_engine s \<noteq> None \<Longrightarrow> chat_block env prompt s = Inl (s', out, ended) \<Longrightarrow> chat_engine s' \<noteq> None"
  "chat_engine s \<noteq> None \<Longrightarrow> chat_block env prompt s = Inr (s', out) \<Longrightarrow> chat_engine s' \<noteq> None"
  by (auto simp: chat_block_def Let_def split: option.splits if_splits prod.splits sum.splits)

lemma main_keeps_uninitialized_empty:
  assumes "uninitialized_empty s"
    and "main env openai_api_key uploaded_files prompt button (s, files) = (s', files', out, ended)"
  shows "uninitialized_empty s'"
proof (cases "openai_api_key = []")
  case True
  with assms show ?thesis by (simp add: main_def)
next
  case key: False
  show ?thesis
  proof (cases "upload_block env uploaded_files s files")
    case (Inl stopped)
    then obtain s1 files1 out1 e1 where "stopped = (s1, files1, out1, e1)"
      by (cases stopped) auto
    with Inl key assms upload_block_stops(1) [of env uploaded_files s files s1 files1 out1 e1]
    show ?thesis by (simp add: main_def)
  next
    case (Inr continued)
    then obtain s1 files1 out1 where c: "upload_block env uploaded_files s files = Inr (s1, files1, out1)"
      by (cases continued) auto
    have m: "messages s1 = messages s" using upload_block_continues(1) [OF c] .
    show ?thesis
    proof (cases "chat_engine s1")
      case None
      with assms(2) key c have "s' = fst (reset_block button (init_messages s1))"
        by (auto simp: main_def Let_def chat_block_uninitialized chat_engine_init_messages
            split: prod.splits)
      moreover have "chat_engine s = None" using c None
        by (auto simp: upload_block_def split: if_splits prod.splits sum.splits)
      ultimately show ?thesis using assms(1) m None
        by (auto simp: uninitialized_empty_def reset_block_def transcript_def init_messages_def
            split: option.splits)
    next
      case (Some engine)
      then have "chat_engine (init_messages s1) \<noteq> None"
        by (simp add: chat_engine_init_messages)
      from chat_block_engine [OF this] assms(2) key c
      have "chat_engine s' \<noteq> None"
        by (auto simp: main_def Let_def reset_block_def split: sum.splits prod.splits if_splits)
      then show ?thesis by (auto simp: uninitialized_empty_def)
    qed
  qed
qed

lemma reachable_uninitialized_empty: "reachable env s \<Longrightarrow> uninitialized_empty s"
proof (induction rule: reachable.induct)
  case fresh
  show ?case by (simp add: uninitialized_empty_def transcript_def)
next
  case (run s openai_api_key uploaded_files prompt button files s' files' out ended)
  then show ?case using main_keeps_uninitialized_empty by blast
qed

lemma loader_shows_no_chat:
  "Chat_message r c \<notin> set (fst (snd (process_uploaded_files reader refused uploaded_files files)))"
  by (auto simp: process_uploaded_files_errors file_errors_def
      split: if_splits sum.splits option.splits)

lemma chat_block_raises:
  "chat_block env prompt s = Inl (s', out, ended) \<Longrightarrow> \<exists>e. ended = Raised e"
  by (auto simp: chat_block_def Let_def split: option.splits if_splits prod.splits sum.splits)

lemma file_fails_documents:
  "file_fails reader refused f \<Longrightarrow> file_documents reader refused f = []"
  by (auto simp: file_fails_def file_documents_def isl_def split: if_splits option.splits)

lemma file_fails_errors:
  "file_fails reader refused f \<Longrightarrow>
     \<exists>e. file_errors reader refused f = [e] \<and> error_names e = Some (file_name f)"
  by (auto simp: file_fails_def file_errors_def isl_def split: if_splits option.splits)

lemma file_documents_origin:
  assumes "d \<in> set (file_documents reader refused f)"
  shows "(file_type f = ''text/plain'' \<and> decode (file_content f) = Inr (doc_text d) \<and>
          doc_metadata d = [(''filename'', file_name f)]) \<or>
         (file_type f = ''application/pdf'' \<and> refused (temp_path (file_name f)) = None \<and>
          (\<exists>pdf_docs. reader (temp_path (file_name f)) (file_content f) = Inr pdf_docs \<and>
             d \<in> set pdf_docs))"
proof (cases "file_type f = ''text/plain''")
  case True
  with assms show ?thesis
    by (cases "decode (file_content f)") (auto simp: file_documents_def)
next
  case plain: False
  show ?thesis
  proof (cases "file_type f = ''application/pdf''")
    case True
    with plain assms show ?thesis
      by (cases "refused (temp_path (file_name f))";
          cases "reader (temp_path (file_name f)) (file_content f)")
        (auto simp: file_documents_def)
  next
    case False
    with plain assms show ?thesis by (simp add: file_documents_def)
  qed
qed

lemma process_text_file:
  assumes "file_type f = ''text/plain''" and "decode (file_content f) = Inr t"
  shows "process_uploaded_files reader refused [f] files =
     ([\<lparr>doc_text = t, doc_metadata = [(''filename'', file_name f)]\<rparr>], [], files)"
  using assms by (simp add: process_uploaded_files_def process_file_def)

lemma upload_block_builds:
  assumes "uploaded_files \<noteq> []"
    and "fst (process_uploaded_files (pdf_load_data env) (open_refused env) uploaded_files files) = documents"
    and "documents \<noteq> []"
    and "from_documents env documents = Inr index"
    and "as_chat_engine env index = Inr engine"
  shows "\<exists>files1 out1. upload_block env uploaded_files s files0 =
     Inr (s\<lparr>chat_engine := Some engine\<rparr>, files1, out1)"
proof -
  have "fst (process_uploaded_files (pdf_load_data env) (open_refused env) uploaded_files files0) = documents"
    using assms(2) by (simp add: process_uploaded_files_documents)
  with assms show ?thesis
    by (auto simp: upload_block_def initialize_chat_engine_def split: prod.splits)
qed

section \<open>The examples, evaluated\<close>

lemma decode_sky: "decode (file_content sky_txt) = Inr [98, 108, 117, 101]"
  by (simp add: decode_def sky_txt_def)

lemma decode_latin1: "decode (file_content latin1_txt) = Inl UnicodeDecodeError"
  by (simp add: decode_def latin1_txt_def is_cont_def)

lemma decode_empty_txt: "decode (file_content empty_txt) = Inr []"
  by (simp add: decode_def empty_txt_def)

lemma file_documents_sky: "file_documents demo_reader demo_refused sky_txt = [sky_document]"
  by (simp add: file_documents_def decode_sky sky_document_def) (simp add: sky_txt_def)

lemma file_documents_good_pdf:
  "file_documents demo_reader demo_refused good_pdf = [good_document]"
  by (simp add: file_documents_def good_pdf_def demo_reader_def demo_refused_def temp_path_def
      good_document_def)

lemma file_documents_nested_pdf: "file_documents demo_reader demo_refused nested_pdf = []"
  by (simp add: file_documents_def nested_pdf_def demo_refused_def temp_path_def)

lemma file_fails_nested_pdf: "file_fails demo_reader demo_refused nested_pdf"
  by (simp add: file_fails_def nested_pdf_def demo_refused_def temp_path_def)

lemma file_documents_logo: "file_documents demo_reader demo_refused logo_png = []"
  by (simp add: file_documents_def logo_png_def)

lemma file_fails_latin1: "file_fails demo_reader demo_refused latin1_txt"
  by (simp add: file_fails_def decode_latin1) (simp add: latin1_txt_def)

lemma pdf_load_data_demo: "pdf_load_data demo_env = demo_reader"
  by (simp add: demo_env_def)

lemma open_refused_demo: "open_refused demo_env = demo_refused"
  by (simp add: demo_env_def)

lemma upload_block_nothing: "upload_block env [] s files = Inr (s, files, [])"
  by (simp add: upload_block_def)

lemma main_demo_turn:
  assumes "n < 2" and "q \<noteq> []"
  shows "main demo_env ''sk-demo'' [] (Some q) False
      (\<lparr>messages = Some ms, chat_engine = Some (docs, n)\<rparr>, files) =
     (\<lparr>messages = Some (ms @ [user_says q, assistant_says (concat (map doc_text docs))]),
        chat_engine = Some (docs, Suc n)\<rparr>,
      files,
      map (\<lambda>m. Chat_message (role m) (content m)) ms @
        [Chat_message ''user'' q, Chat_message ''assistant'' (concat (map doc_text docs))],
      Completed)"
  using assms
  by (simp add: main_def upload_block_nothing init_messages_def show_messages_def transcript_def
      chat_block_def reset_block_def demo_env_def demo_chat_def user_says_def assistant_says_def)

section \<open>The document loader\<close>

text \<open>
  Claim C10. The loader preserves the order of its input: the list it returns is the
  concatenation, file by file in input order, of what each file contributes. That is one
  Document for a text file that decodes; the Documents the extraction returned, in their
  order, for a PDF file whose staging file could be written and whose extraction
  returned; and nothing for a file that fails (a text file that does not decode, a PDF
  file whose staging file cannot be written or whose extraction raises) or has another
  type.
\<close>

theorem loader_preserves_order:
  "fst (process_uploaded_files reader refused uploaded_files files) =
     concat (map (file_documents reader refused) uploaded_files)"
  by (rule process_uploaded_files_documents)

theorem loader_preserves_order_witness:
  "fst (process_uploaded_files demo_reader demo_refused
      [good_pdf, nested_pdf, logo_png, sky_txt] no_files) =
     [good_document, sky_document]"
  using loader_preserves_order
    [of demo_reader demo_refused "[good_pdf, nested_pdf, logo_png, sky_txt]" no_files]
  by (simp add: file_documents_sky file_documents_good_pdf file_documents_logo
      file_documents_nested_pdf)

text \<open>
  Claim C5. A file that fails (a text file that is not valid UTF-8, a PDF file whose
  staging file cannot be written or whose extraction raises, or a file of another
  declared type) adds no Document, causes exactly
  one error message, which names it, and leaves the rest of the batch alone: the
  Documents returned are those of the batch without the file, and the messages are those
  of the files before it, its own, and those of the files after it.
\<close>

theorem failing_file_is_isolated:
  assumes "file_fails reader refused f"
  shows "fst (process_uploaded_files reader refused (before @ f # after) files) =
           fst (process_uploaded_files reader refused (before @ after) files)
       \<and> fst (process_uploaded_files reader refused [f] files) = []
       \<and> (\<exists>e. error_names e = Some (file_name f) \<and>
            fst (snd (process_uploaded_files reader refused (before @ f # after) files)) =
              fst (snd (process_uploaded_files reader refused before files)) @ [e] @
              fst (snd (process_uploaded_files reader refused after files)))"
proof -
  obtain e where e: "file_errors reader refused f = [e]" "error_names e = Some (file_name f)"
    using file_fails_errors [OF assms] by blast
  have "fst (process_uploaded_files reader refused (before @ f # after) files) =
      fst (process_uploaded_files reader refused (before @ after) files)"
    by (simp add: process_uploaded_files_documents file_fails_documents [OF assms])
  moreover have "fst (process_uploaded_files reader refused [f] files) = []"
    by (simp add: process_uploaded_files_documents file_fails_documents [OF assms])
  moreover have "fst (snd (process_uploaded_files reader refused (before @ f # after) files)) =
      fst (snd (process_uploaded_files reader refused before files)) @ [e] @
      fst (snd (process_uploaded_files reader refused after files))"
    by (simp add: process_uploaded_files_errors e(1))
  ultimately show ?thesis using e(2) by blast
qed

theorem failing_file_is_isolated_witness:
  "file_fails demo_reader demo_refused latin1_txt
   \<and> fst (process_uploaded_files demo_reader demo_refused [sky_txt, latin1_txt, good_pdf] no_files) =
       fst (process_uploaded_files demo_reader demo_refused [sky_txt, good_pdf] no_files)
   \<and> fst (process_uploaded_files demo_reader demo_refused [latin1_txt] no_files) = []
   \<and> file_fails demo_reader demo_refused nested_pdf
   \<and> fst (process_uploaded_files demo_reader demo_refused [sky_txt, nested_pdf, good_pdf] no_files) =
       fst (process_uploaded_files demo_reader demo_refused [sky_txt, good_pdf] no_files)"
  using failing_file_is_isolated
      [OF file_fails_latin1, of "[sky_txt]" "[good_pdf]" no_files]
    failing_file_is_isolated
      [OF file_fails_nested_pdf, of "[sky_txt]" "[good_pdf]" no_files]
    file_fails_latin1 file_fails_nested_pdf
  by simp

text \<open>
  Claim C2, as the code has it. The loader makes no check on the text of a Document.
  Every Document it returns is either built from a text file of the batch, with the text
  that file decodes to and the file's name as its \<^verbatim>\<open>filename\<close> metadata, or is one
  of the Documents the extraction returned for a PDF file of the batch. A text file that
  decodes, to the empty string or to anything else, yields exactly one Document with that
  text and no error message.
\<close>

theorem loader_documents_come_from_files:
  "(\<forall>d \<in> set (fst (process_uploaded_files reader refused uploaded_files files)).
      \<exists>f \<in> set uploaded_files.
        (file_type f = ''text/plain'' \<and> decode (file_content f) = Inr (doc_text d) \<and>
          doc_metadata d = [(''filename'', file_name f)]) \<or>
        (file_type f = ''application/pdf'' \<and> refused (temp_path (file_name f)) = None \<and>
          (\<exists>pdf_docs. reader (temp_path (file_name f)) (file_content f) = Inr pdf_docs \<and>
             d \<in> set pdf_docs)))
   \<and> (\<forall>f t. file_type f = ''text/plain'' \<longrightarrow> decode (file_content f) = Inr t \<longrightarrow>
        process_uploaded_files reader refused [f] files =
          ([\<lparr>doc_text = t, doc_metadata = [(''filename'', file_name f)]\<rparr>], [], files))"
proof (intro conjI ballI allI impI)
  fix d
  assume "d \<in> set (fst (process_uploaded_files reader refused uploaded_files files))"
  then obtain f where f: "f \<in> set uploaded_files" "d \<in> set (file_documents reader refused f)"
    by (auto simp: process_uploaded_files_documents)
  from file_documents_origin [OF f(2)] f(1)
  show "\<exists>f \<in> set uploaded_files.
        (file_type f = ''text/plain'' \<and> decode (file_content f) = Inr (doc_text d) \<and>
          doc_metadata d = [(''filename'', file_name f)]) \<or>
        (file_type f = ''application/pdf'' \<and> refused (temp_path (file_name f)) = None \<and>
          (\<exists>pdf_docs. reader (temp_path (file_name f)) (file_content f) = Inr pdf_docs \<and>
             d \<in> set pdf_docs))"
    by blast
next
  fix f :: uploaded_file and t
  assume "file_type f = ''text/plain''" and "decode (file_content f) = Inr t"
  then show "process_uploaded_files reader refused [f] files =
          ([\<lparr>doc_text = t, doc_metadata = [(''filename'', file_name f)]\<rparr>], [], files)"
    by (rule process_text_file)
qed

theorem loader_documents_come_from_files_witness:
  "sky_document \<in> set (fst (process_uploaded_files demo_reader demo_refused [good_pdf, sky_txt] no_files))
   \<and> (\<exists>f \<in> set [good_pdf, sky_txt].
        (file_type f = ''text/plain'' \<and> decode (file_content f) = Inr (doc_text sky_document) \<and>
          doc_metadata sky_document = [(''filename'', file_name f)]) \<or>
        (file_type f = ''application/pdf'' \<and> demo_refused (temp_path (file_name f)) = None \<and>
          (\<exists>pdf_docs. demo_reader (temp_path (file_name f)) (file_content f) = Inr pdf_docs \<and>
             sky_document \<in> set pdf_docs)))
   \<and> file_type sky_txt = ''text/plain''
   \<and> decode (file_content sky_txt) = Inr [98, 108, 117, 101]
   \<and> process_uploaded_files demo_reader demo_refused [sky_txt] no_files =
        ([\<lparr>doc_text = [98, 108, 117, 101], doc_metadata = [(''filename'', file_name sky_txt)]\<rparr>],
         [], no_files)"
proof -
  have member:
    "sky_document \<in> set (fst (process_uploaded_files demo_reader demo_refused [good_pdf, sky_txt] no_files))"
    by (simp add: process_uploaded_files_documents file_documents_sky file_documents_good_pdf)
  have plain: "file_type sky_txt = ''text/plain''"
    by (simp add: sky_txt_def)
  note inst = loader_documents_come_from_files [of demo_reader demo_refused "[good_pdf, sky_txt]" no_files]
  from inst member have origin: "\<exists>f \<in> set [good_pdf, sky_txt].
        (file_type f = ''text/plain'' \<and> decode (file_content f) = Inr (doc_text sky_document) \<and>
          doc_metadata sky_document = [(''filename'', file_name f)]) \<or>
        (file_type f = ''application/pdf'' \<and> demo_refused (temp_path (file_name f)) = None \<and>
          (\<exists>pdf_docs. demo_reader (temp_path (file_name f)) (file_content f) = Inr pdf_docs \<and>
             sky_document \<in> set pdf_docs))"
    by blast
  from inst plain decode_sky have "process_uploaded_files demo_reader demo_refused [sky_txt] no_files =
        ([\<lparr>doc_text = [98, 108, 117, 101], doc_metadata = [(''filename'', file_name sky_txt)]\<rparr>],
         [], no_files)"
    by blast
  with member origin plain decode_sky show ?thesis by blast
qed

text \<open>
  The input on which claim C2 fails as the specification states it: an empty text file is
  decoded to the empty string and becomes a Document with empty text; no error is shown.
\<close>

theorem empty_text_file_yields_document:
  "process_uploaded_files demo_reader demo_refused [empty_txt] no_files =
     ([\<lparr>doc_text = [], doc_metadata = [(''filename'', ''empty.txt'')]\<rparr>], [], no_files)"
proof -
  have plain: "file_type empty_txt = ''text/plain''"
    by (simp add: empty_txt_def)
  from process_text_file [OF plain decode_empty_txt, of demo_reader demo_refused no_files]
  show ?thesis by (simp add: empty_txt_def)
qed

text \<open>
  The staging file of a PDF upload after its iteration of the loop, when the path was
  accepted: gone when the extraction returned, still there with the uploaded bytes when
  the extraction raised.
\<close>

lemma staging_file_removed_on_success:
  assumes "file_type f = ''application/pdf''"
    and "refused (temp_path (file_name f)) = None"
    and "reader (temp_path (file_name f)) (file_content f) = Inr pdf_docs"
  shows "snd (snd (process_file reader refused f (documents, out, files)))
      (temp_path (file_name f)) = None"
  using assms
  by (simp add: process_file_def Let_def open_wb_def load_data_written os_remove_written)

lemma staging_file_left_on_failure:
  assumes "file_type f = ''application/pdf''"
    and "refused (temp_path (file_name f)) = None"
    and "reader (temp_path (file_name f)) (file_content f) = Inl e"
  shows "snd (snd (process_file reader refused f (documents, out, files)))
      (temp_path (file_name f)) = Some (file_content f)"
  using assms
  by (simp add: process_file_def Let_def open_wb_def load_data_written)

text \<open>
  Claim C1 at a failing input. A PDF upload that the reader rejects: the staging file
  \<^verbatim>\<open>temp_broken.pdf\<close> is written, the extraction raises, the \<^verbatim>\<open>except\<close> clause
  reports the error, and \<^verbatim>\<open>os.remove\<close> is never reached, so the file is still there
  when \<^verbatim>\<open>process_uploaded_files\<close> returns.
\<close>

theorem temp_file_left_after_failed_extraction:
  "snd (snd (process_uploaded_files demo_reader demo_refused [broken_pdf] no_files))
     ''temp_broken.pdf'' = Some [0x00, 0x01]"
  by (simp add: process_uploaded_files_def process_file_def broken_pdf_def demo_reader_def
      demo_refused_def open_wb_def load_data_def temp_path_def no_files_def)

section \<open>The session\<close>

text \<open>
  Claim C4. When a non-empty upload yields no Document, no index is built: the run shows
  the loader's messages and then the error that nothing could be processed, returns at
  once, and the session state is exactly what it was, so an engine from an earlier batch
  stays in place and nothing new is attached.
\<close>

theorem empty_batch_leaves_session:
  assumes "openai_api_key \<noteq> []" and "uploaded_files \<noteq> []"
    and "fst (process_uploaded_files (pdf_load_data env) (open_refused env) uploaded_files files) = []"
  shows "\<exists>files' errors. main env openai_api_key uploaded_files prompt button (s, files) =
     (s, files', errors @ [Error_no_documents], Returned)"
  using assms by (auto simp: main_def upload_block_def split: prod.splits)

theorem empty_batch_leaves_session_witness:
  "''sk-demo'' \<noteq> [] \<and> [logo_png] \<noteq> []
   \<and> fst (process_uploaded_files (pdf_load_data demo_env) (open_refused demo_env) [logo_png] no_files) = []
   \<and> (\<exists>files' errors. main demo_env ''sk-demo'' [logo_png] (Some [104, 105]) False
         (talked_session, no_files) =
       (talked_session, files', errors @ [Error_no_documents], Returned))"
proof -
  have key: "''sk-demo'' \<noteq> []" by simp
  have batch: "[logo_png] \<noteq> []" by simp
  have none: "fst (process_uploaded_files (pdf_load_data demo_env) (open_refused demo_env) [logo_png] no_files) = []"
    by (simp add: process_uploaded_files_documents pdf_load_data_demo open_refused_demo file_documents_logo)
  from empty_batch_leaves_session [OF key batch none, of "Some [104, 105]" False talked_session]
    key batch none
  show ?thesis by blast
qed

text \<open>
  Claim C8. When the upload of a run yields Documents and the index and the engine are
  built from them, the session's engine after the run is that engine (after the chat call
  of the run, if a prompt was submitted), whatever session state and file system the run
  started from: the engine of an earlier batch is replaced and nothing of it is merged
  in. The Documents are those of the files of this upload alone.
\<close>

theorem new_batch_replaces_engine:
  assumes "openai_api_key \<noteq> []" and "uploaded_files \<noteq> []"
    and "fst (process_uploaded_files (pdf_load_data env) (open_refused env) uploaded_files files) = documents"
    and "documents \<noteq> []"
    and "from_documents env documents = Inr index"
    and "initialize_chat_engine env index = Inr engine"
    and "main env openai_api_key uploaded_files prompt button (s, files0) = (s', files', out, ended)"
  shows "chat_engine s' =
     Some (case prompt of None \<Rightarrow> engine
           | Some p \<Rightarrow> if p = [] then engine else snd (chat env engine p))"
proof -
  have "as_chat_engine env index = Inr engine"
    using assms(6) by (simp add: initialize_chat_engine_def)
  from upload_block_builds [OF assms(2-5) this]
  obtain files1 out1 where u: "upload_block env uploaded_files s files0 =
      Inr (s\<lparr>chat_engine := Some engine\<rparr>, files1, out1)"
    by blast
  show ?thesis using assms(1,7) u
    by (auto simp: main_def Let_def chat_block_def reset_block_def init_messages_def
        split: option.splits if_splits prod.splits sum.splits)
qed

theorem new_batch_replaces_engine_witness:
  "''sk-demo'' \<noteq> [] \<and> [good_pdf] \<noteq> []
   \<and> fst (process_uploaded_files (pdf_load_data demo_env) (open_refused demo_env) [good_pdf] no_files) = [good_document]
   \<and> from_documents demo_env [good_document] = Inr [good_document]
   \<and> initialize_chat_engine demo_env [good_document] = Inr ([good_document], 0)
   \<and> chat_engine talked_session = Some ([sky_document], 1)
   \<and> chat_engine (fst (main demo_env ''sk-demo'' [good_pdf] None False (talked_session, no_files))) =
       Some ([good_document], 0)"
proof -
  have key: "''sk-demo'' \<noteq> []" by simp
  have batch: "[good_pdf] \<noteq> []" by simp
  have docs: "fst (process_uploaded_files (pdf_load_data demo_env) (open_refused demo_env) [good_pdf] no_files) =
      [good_document]"
    by (simp add: process_uploaded_files_documents pdf_load_data_demo open_refused_demo file_documents_good_pdf)
  have some: "[good_document] \<noteq> []" by simp
  have index: "from_documents demo_env [good_document] = Inr [good_document]"
    by (simp add: demo_env_def)
  have engine: "initialize_chat_engine demo_env [good_document] = Inr ([good_document], 0)"
    by (simp add: initialize_chat_engine_def demo_env_def)
  have run: "main demo_env ''sk-demo'' [good_pdf] None False (talked_session, no_files) =
      (fst (main demo_env ''sk-demo'' [good_pdf] None False (talked_session, no_files)),
       fst (snd (main demo_env ''sk-demo'' [good_pdf] None False (talked_session, no_files))),
       fst (snd (snd (main demo_env ''sk-demo'' [good_pdf] None False (talked_session, no_files)))),
       snd (snd (snd (main demo_env ''sk-demo'' [good_pdf] None False (talked_session, no_files)))))"
    by simp
  have before: "chat_engine talked_session = Some ([sky_document], 1)"
    by (simp add: talked_session_def)
  from new_batch_replaces_engine [OF key batch docs some index engine run]
    key batch docs index engine before
  show ?thesis by simp
qed

text \<open>
  Claim C6. In a session that has no engine, and that still has none after the run, a
  submitted prompt is not looked at: the run is, in every respect, the run without a
  prompt. The transcript is empty afterwards, no chat message is shown, and a run that
  gets as far as the chat section shows the hint to upload documents instead of the chat
  input.
\<close>

theorem uninitialized_session_rejects_turns:
  assumes "reachable env s" and "chat_engine s = None"
    and "main env openai_api_key uploaded_files prompt button (s, files) = (s', files', out, ended)"
    and "chat_engine s' = None"
  shows "transcript s' = []
    \<and> main env openai_api_key uploaded_files None button (s, files) = (s', files', out, ended)
    \<and> (ended = Completed \<or> ended = Rerun \<longrightarrow> Info_upload_first \<in> set out)
    \<and> (\<forall>r c. Chat_message r c \<notin> set out)"
proof -
  have empty: "transcript s = []"
    using reachable_uninitialized_empty [OF assms(1)] assms(2)
    by (simp add: uninitialized_empty_def)
  show ?thesis
  proof (cases "openai_api_key = []")
    case True
    with assms(3) empty show ?thesis by (auto simp: main_def)
  next
    case key: False
    show ?thesis
    proof (cases "upload_block env uploaded_files s files")
      case (Inl stopped)
      then obtain s1 files1 out1 e1 where
        st: "upload_block env uploaded_files s files = Inl (s1, files1, out1, e1)"
        by (cases stopped) auto
      have "s1 = s" "e1 \<noteq> Completed" "e1 \<noteq> Rerun" using upload_block_stops [OF st] by auto
      moreover have "Chat_message r c \<notin> set out1" for r c
        using st loader_shows_no_chat [of r c "pdf_load_data env" "open_refused env" uploaded_files files]
        by (auto simp: upload_block_def split: if_splits prod.splits sum.splits)
      ultimately show ?thesis using st key assms(3) empty by (auto simp: main_def)
    next
      case (Inr continued)
      then obtain s1 files1 out1 where
        c: "upload_block env uploaded_files s files = Inr (s1, files1, out1)"
        by (cases continued) auto
      have m: "messages s1 = messages s" using upload_block_continues(1) [OF c] .
      have out1: "Chat_message r c \<notin> set out1" for r c
        using c loader_shows_no_chat [of r c "pdf_load_data env" "open_refused env" uploaded_files files]
        by (auto simp: upload_block_def split: if_splits prod.splits sum.splits)
      have none: "chat_engine s1 = None"
      proof (rule ccontr)
        assume "chat_engine s1 \<noteq> None"
        then have "chat_engine (init_messages s1) \<noteq> None"
          by (simp add: chat_engine_init_messages)
        from chat_block_engine [OF this] assms(3) key c
        have "chat_engine s' \<noteq> None"
          by (auto simp: main_def Let_def reset_block_def split: sum.splits prod.splits if_splits)
        with assms(4) show False by simp
      qed
      have t1: "transcript s1 = []" using empty m by (simp add: transcript_def)
      have shown: "show_messages (init_messages s1) = []"
        by (simp add: show_messages_def transcript_init_messages t1)
      have run: "main env openai_api_key uploaded_files pr button (s, files) =
          (fst (reset_block button (init_messages s1)), files1, out1 @ [Info_upload_first],
           snd (reset_block button (init_messages s1)))" for pr
        using key c none
        by (simp add: main_def Let_def chat_block_uninitialized chat_engine_init_messages shown
            split: prod.splits)
      have "transcript (fst (reset_block button (init_messages s1))) = []"
        using t1 by (simp add: reset_block_def transcript_init_messages) (simp add: transcript_def)
      with run [of prompt] run [of None] assms(3) out1 show ?thesis by auto
    qed
  qed
qed

theorem uninitialized_session_rejects_turns_witness:
  "reachable demo_env fresh_session \<and> chat_engine fresh_session = None
   \<and> main demo_env ''sk-demo'' [] (Some [104, 105]) False (fresh_session, no_files) =
       (\<lparr>messages = Some [], chat_engine = None\<rparr>, no_files, [Info_upload_first], Completed)
   \<and> transcript \<lparr>messages = Some [], chat_engine = None :: (document list \<times> nat) option\<rparr> = []
   \<and> main demo_env ''sk-demo'' [] None False (fresh_session, no_files) =
       (\<lparr>messages = Some [], chat_engine = None\<rparr>, no_files, [Info_upload_first], Completed)"
proof -
  have start: "reachable demo_env fresh_session"
    unfolding fresh_session_def by (rule reachable.fresh)
  have none: "chat_engine fresh_session = None"
    by (simp add: fresh_session_def)
  have run: "main demo_env ''sk-demo'' [] (Some [104, 105]) False (fresh_session, no_files) =
       (\<lparr>messages = Some [], chat_engine = None\<rparr>, no_files, [Info_upload_first], Completed)"
    by (simp add: main_def upload_block_nothing init_messages_def show_messages_def
        transcript_def chat_block_def reset_block_def fresh_session_def)
  have after: "chat_engine \<lparr>messages = Some [], chat_engine = None :: (document list \<times> nat) option\<rparr> = None"
    by simp
  from uninitialized_session_rejects_turns [OF start none run after] start none run
  show ?thesis by simp
qed

text \<open>
  A run with the reset button clicked, against the same run without the click: where the
  latter reaches its last line, the former ends in the same state with the messages
  emptied and asks for a rerun; where the latter returns early or raises, the reset
  section is not reached and the click changes nothing.
\<close>

lemma main_clicked:
  "main env openai_api_key uploaded_files prompt True (s, files) =
     (case main env openai_api_key uploaded_files prompt False (s, files) of
        (s', files', out, ended) \<Rightarrow>
          if ended = Completed then (s'\<lparr>messages := Some []\<rparr>, files', out, Rerun)
          else (s', files', out, ended))"
proof (cases "openai_api_key = []")
  case True
  then show ?thesis by (simp add: main_def)
next
  case key: False
  show ?thesis
  proof (cases "upload_block env uploaded_files s files")
    case (Inl stopped)
    then obtain s1 files1 out1 e1 where
      st: "upload_block env uploaded_files s files = Inl (s1, files1, out1, e1)"
      by (cases stopped) auto
    with upload_block_stops(2) [OF st] key show ?thesis by (simp add: main_def)
  next
    case (Inr continued)
    then obtain s1 files1 out1 where
      c: "upload_block env uploaded_files s files = Inr (s1, files1, out1)"
      by (cases continued) auto
    show ?thesis
    proof (cases "chat_block env prompt (init_messages s1)")
      case (Inl raised)
      then obtain s3 out3 e3 where
        r: "chat_block env prompt (init_messages s1) = Inl (s3, out3, e3)"
        by (cases raised) auto
      from chat_block_raises [OF r] r key c show ?thesis
        by (auto simp: main_def Let_def)
    next
      case (Inr went)
      with key c show ?thesis
        by (auto simp: main_def Let_def reset_block_def split: prod.splits)
    qed
  qed
qed

lemma main_clicked_idle:
  assumes "openai_api_key \<noteq> []"
  shows "\<exists>out. main env openai_api_key [] None True (s, files) =
     (s\<lparr>messages := Some []\<rparr>, files, out, Rerun)"
  using assms
  by (simp add: main_def upload_block_def Let_def chat_block_def reset_block_def
      init_messages_def split: option.splits)

lemma main_clicked_rebuilds:
  assumes "openai_api_key \<noteq> []" and "uploaded_files \<noteq> []"
    and "fst (process_uploaded_files (pdf_load_data env) (open_refused env) uploaded_files files) =
      documents"
    and "documents \<noteq> []"
    and "from_documents env documents = Inr index"
    and "initialize_chat_engine env index = Inr engine"
  shows "\<exists>files' out. main env openai_api_key uploaded_files None True (s, files) =
     (s\<lparr>messages := Some [], chat_engine := Some engine\<rparr>, files', out, Rerun)"
proof -
  have "as_chat_engine env index = Inr engine"
    using assms(6) by (simp add: initialize_chat_engine_def)
  from upload_block_builds [OF assms(2-5) this]
  obtain files1 out1 where "upload_block env uploaded_files s files =
      Inr (s\<lparr>chat_engine := Some engine\<rparr>, files1, out1)"
    by blast
  with assms(1) show ?thesis
    by (simp add: main_def Let_def chat_block_def reset_block_def init_messages_def)
qed

lemma process_sky:
  "process_uploaded_files demo_reader demo_refused [sky_txt] files = ([sky_document], [], files)"
proof -
  have plain: "file_type sky_txt = ''text/plain''"
    by (simp add: sky_txt_def)
  from process_text_file [OF plain decode_sky, of demo_reader demo_refused files]
  show ?thesis by (simp add: sky_txt_def sky_document_def)
qed

text \<open>
  Claim C7, as the code has it. The reset section (lines 140 to 142) sets the messages to
  the empty list and asks for a rerun, and writes nothing else: a run with the button
  clicked differs from the same run without the click in this alone, and only when that
  run reaches its last line; a run that returns early or raises does not clear the
  transcript. With nothing in the uploader and no prompt, the state after the click is
  the state before it with the transcript emptied, for every session state: the engine is
  unchanged and nothing is rebuilt. With files in the uploader the run, like every run,
  first builds a new index and engine from them (lines 89 to 100), and the state after the
  click holds that new engine, not the one it started with.
\<close>

theorem reset_run_effect:
  "main env openai_api_key uploaded_files prompt True (s, files) =
     (case main env openai_api_key uploaded_files prompt False (s, files) of
        (s', files', out, ended) \<Rightarrow>
          if ended = Completed then (s'\<lparr>messages := Some []\<rparr>, files', out, Rerun)
          else (s', files', out, ended))
   \<and> (openai_api_key \<noteq> [] \<longrightarrow>
        (\<exists>out0. main env openai_api_key [] None True (s, files) =
           (s\<lparr>messages := Some []\<rparr>, files, out0, Rerun)))
   \<and> (openai_api_key \<noteq> [] \<longrightarrow> uploaded_files \<noteq> [] \<longrightarrow>
        fst (process_uploaded_files (pdf_load_data env) (open_refused env) uploaded_files files) =
          documents \<longrightarrow>
        documents \<noteq> [] \<longrightarrow>
        from_documents env documents = Inr index \<longrightarrow>
        initialize_chat_engine env index = Inr engine \<longrightarrow>
        (\<exists>files' out1. main env openai_api_key uploaded_files None True (s, files) =
           (s\<lparr>messages := Some [], chat_engine := Some engine\<rparr>, files', out1, Rerun)))"
  using main_clicked [of env openai_api_key uploaded_files prompt s files]
    main_clicked_idle [of openai_api_key env s files]
    main_clicked_rebuilds [of openai_api_key uploaded_files env files documents index engine s]
  by blast

theorem reset_run_effect_witness:
  "main demo_env ''sk-demo'' [] None True (talked_session, no_files) =
     (talked_session\<lparr>messages := Some []\<rparr>, no_files,
      [Chat_message ''user'' [104, 105], Chat_message ''assistant'' [98, 108, 117, 101]],
      Rerun)
   \<and> transcript (talked_session\<lparr>messages := Some []\<rparr>) = []
   \<and> chat_engine (talked_session\<lparr>messages := Some []\<rparr>) = chat_engine talked_session
   \<and> main rate_limited_env ''sk-demo'' [sky_txt] None True (talked_session, no_files) =
     (talked_session, no_files, [Sidebar_success 1], Raised (ServiceError ''RateLimitError''))
   \<and> (\<exists>files' out1. main demo_env ''sk-demo'' [sky_txt] None True (talked_session, no_files) =
        (talked_session\<lparr>messages := Some [], chat_engine := Some ([sky_document], 0)\<rparr>,
         files', out1, Rerun))"
proof -
  have idle: "main demo_env ''sk-demo'' [] None False (talked_session, no_files) =
     (talked_session, no_files,
      [Chat_message ''user'' [104, 105], Chat_message ''assistant'' [98, 108, 117, 101]],
      Completed)"
    by (simp add: main_def upload_block_nothing init_messages_def show_messages_def
        transcript_def chat_block_def reset_block_def talked_session_def user_says_def
        assistant_says_def)
  have limited: "main rate_limited_env ''sk-demo'' [sky_txt] None False (talked_session, no_files) =
     (talked_session, no_files, [Sidebar_success 1], Raised (ServiceError ''RateLimitError''))"
    by (simp add: main_def upload_block_def rate_limited_env_def demo_env_def process_sky)
  have key: "''sk-demo'' \<noteq> []" by simp
  have batch: "[sky_txt] \<noteq> []" by simp
  have docs: "fst (process_uploaded_files (pdf_load_data demo_env) (open_refused demo_env)
      [sky_txt] no_files) = [sky_document]"
    by (simp add: pdf_load_data_demo open_refused_demo process_sky)
  have some: "[sky_document] \<noteq> []" by simp
  have index: "from_documents demo_env [sky_document] = Inr [sky_document]"
    by (simp add: demo_env_def)
  have engine: "initialize_chat_engine demo_env [sky_document] = Inr ([sky_document], 0)"
    by (simp add: initialize_chat_engine_def demo_env_def)
  have first: "main demo_env ''sk-demo'' [] None True (talked_session, no_files) =
     (talked_session\<lparr>messages := Some []\<rparr>, no_files,
      [Chat_message ''user'' [104, 105], Chat_message ''assistant'' [98, 108, 117, 101]],
      Rerun)"
    using reset_run_effect [of demo_env "''sk-demo''" "[]" None talked_session no_files] idle
    by simp
  have second: "main rate_limited_env ''sk-demo'' [sky_txt] None True (talked_session, no_files) =
     (talked_session, no_files, [Sidebar_success 1], Raised (ServiceError ''RateLimitError''))"
    using reset_run_effect [of rate_limited_env "''sk-demo''" "[sky_txt]" None talked_session
        no_files] limited
    by simp
  have third: "\<exists>files' out1.
      main demo_env ''sk-demo'' [sky_txt] None True (talked_session, no_files) =
        (talked_session\<lparr>messages := Some [], chat_engine := Some ([sky_document], 0)\<rparr>,
         files', out1, Rerun)"
    using reset_run_effect [of demo_env "''sk-demo''" "[sky_txt]" None talked_session no_files
        "[sky_document]" "[sky_document]" "([sky_document], 0)"]
      key batch docs some index engine
    by blast
  from first second third show ?thesis by (simp add: transcript_def)
qed

text \<open>
  The input on which claim C7 fails as the specification states it: a session whose engine
  has answered once, the uploaded file still in the uploader, and a click on the reset
  button. The run rebuilds index and engine before it reaches the reset section; the
  session ends with the new engine in place of the one it had.
\<close>

theorem reset_click_rebuilds_engine:
  "chat_engine talked_session = Some ([sky_document], 1)
   \<and> main demo_env ''sk-demo'' [sky_txt] None True (talked_session, no_files) =
       (\<lparr>messages = Some [], chat_engine = Some ([sky_document], 0)\<rparr>, no_files,
        [Sidebar_success 1, Success_done,
         Chat_message ''user'' [104, 105], Chat_message ''assistant'' [98, 108, 117, 101]],
        Rerun)"
  by (simp add: main_def upload_block_def demo_env_def process_sky initialize_chat_engine_def
      init_messages_def show_messages_def transcript_def chat_block_def reset_block_def
      talked_session_def user_says_def assistant_says_def)

text \<open>
  Claim C3, as the code has it. The user's entry is appended before the engine is
  called. When the call raises, the exception leaves \<^verbatim>\<open>main\<close>, no assistant entry is
  appended, and the transcript is the one before the turn followed by the user's entry.
\<close>

theorem failed_turn_keeps_user_entry:
  assumes "openai_api_key \<noteq> []"
    and "upload_block env uploaded_files s files = Inr (s1, files1, out1)"
    and "chat_engine s1 = Some engine"
    and "p \<noteq> []"
    and "chat env engine p = (Inl e, engine')"
  shows "\<exists>s' files' out. main env openai_api_key uploaded_files (Some p) button (s, files) =
        (s', files', out, Raised e)
      \<and> transcript s' = transcript s @ [\<lparr>role = ''user'', content = p\<rparr>]"
  using main_failed_turn [OF assms, of button]
  by (auto simp: transcript_def)

theorem failed_turn_keeps_user_entry_witness:
  "''sk-demo'' \<noteq> []
   \<and> upload_block demo_env [] exhausted_session no_files = Inr (exhausted_session, no_files, [])
   \<and> chat_engine exhausted_session = Some ([sky_document], 2)
   \<and> [104, 105] \<noteq> ([] :: pystr)
   \<and> chat demo_env ([sky_document], 2) [104, 105] =
       (Inl (ServiceError ''UpstreamError''), ([sky_document], 2))
   \<and> (\<exists>s' files' out. main demo_env ''sk-demo'' [] (Some [104, 105]) True (exhausted_session, no_files) =
         (s', files', out, Raised (ServiceError ''UpstreamError''))
       \<and> transcript s' = transcript exhausted_session @ [\<lparr>role = ''user'', content = [104, 105]\<rparr>])"
proof -
  have key: "''sk-demo'' \<noteq> []" by simp
  have upload: "upload_block demo_env [] exhausted_session no_files =
      Inr (exhausted_session, no_files, [])"
    by (rule upload_block_nothing)
  have engine: "chat_engine exhausted_session = Some ([sky_document], 2)"
    by (simp add: exhausted_session_def)
  have prompt: "[104, 105] \<noteq> ([] :: pystr)" by simp
  have fails: "chat demo_env ([sky_document], 2) [104, 105] =
       (Inl (ServiceError ''UpstreamError''), ([sky_document], 2))"
    by (simp add: demo_env_def demo_chat_def)
  from failed_turn_keeps_user_entry [OF key upload engine prompt fails, of True]
    key upload engine prompt fails
  show ?thesis by blast
qed

text \<open>
  The input on which claim C3 fails as the specification states it: a ready session with
  an empty transcript whose engine raises. After the run the transcript is not the one
  before the turn: it holds the user's entry.
\<close>

theorem failed_turn_changes_transcript:
  "transcript exhausted_session = []
   \<and> main demo_env ''sk-demo'' [] (Some [104, 105]) False (exhausted_session, no_files) =
       (\<lparr>messages = Some [\<lparr>role = ''user'', content = [104, 105]\<rparr>],
          chat_engine = Some ([sky_document], 2)\<rparr>,
        no_files, [Chat_message ''user'' [104, 105]], Raised (ServiceError ''UpstreamError''))
   \<and> transcript (fst (main demo_env ''sk-demo'' [] (Some [104, 105]) False
        (exhausted_session, no_files))) = [\<lparr>role = ''user'', content = [104, 105]\<rparr>]"
  by (simp add: main_def upload_block_nothing init_messages_def show_messages_def
      transcript_def chat_block_def exhausted_session_def demo_env_def demo_chat_def)

text \<open>
  Claim C9. A turn whose engine call succeeds appends two entries, the user's question
  and then the assistant's answer, and the run reaches its end. Two such turns in a row
  leave the transcript they started from followed by the four entries user, assistant,
  user, assistant.
\<close>

theorem successful_turns_append_pairs:
  assumes "openai_api_key \<noteq> []"
    and "upload_block env files1 s fs0 = Inr (s1, fs1, out1)"
    and "chat_engine s1 = Some engine1"
    and "q1 \<noteq> []"
    and "chat env engine1 q1 = (Inr a1, engine1')"
    and "main env openai_api_key files1 (Some q1) False (s, fs0) = (s', fs', out', ended')"
    and "upload_block env files2 s' fs' = Inr (s2, fs2, out2)"
    and "chat_engine s2 = Some engine2"
    and "q2 \<noteq> []"
    and "chat env engine2 q2 = (Inr a2, engine2')"
    and "main env openai_api_key files2 (Some q2) False (s', fs') = (s'', fs'', out'', ended'')"
  shows "transcript s' = transcript s @
           [\<lparr>role = ''user'', content = q1\<rparr>, \<lparr>role = ''assistant'', content = a1\<rparr>]
    \<and> transcript s'' = transcript s @
           [\<lparr>role = ''user'', content = q1\<rparr>, \<lparr>role = ''assistant'', content = a1\<rparr>,
            \<lparr>role = ''user'', content = q2\<rparr>, \<lparr>role = ''assistant'', content = a2\<rparr>]
    \<and> ended' = Completed \<and> ended'' = Completed"
proof -
  have one: "transcript s' = transcript s @
           [\<lparr>role = ''user'', content = q1\<rparr>, \<lparr>role = ''assistant'', content = a1\<rparr>]"
      "ended' = Completed"
    using main_successful_turn [OF assms(1-5)] assms(6) by (auto simp: transcript_def)
  have two: "transcript s'' = transcript s' @
           [\<lparr>role = ''user'', content = q2\<rparr>, \<lparr>role = ''assistant'', content = a2\<rparr>]"
      "ended'' = Completed"
    using main_successful_turn [OF assms(1) assms(7-10)] assms(11) by (auto simp: transcript_def)
  from one two show ?thesis by simp
qed

theorem successful_turns_append_pairs_witness:
  "main demo_env ''sk-demo'' [] (Some [104, 105]) False (ready_session, no_files) =
     (talked_session, no_files,
      [Chat_message ''user'' [104, 105], Chat_message ''assistant'' [98, 108, 117, 101]],
      Completed)
   \<and> transcript ready_session = []
   \<and> transcript (fst (main demo_env ''sk-demo'' [] (Some [63]) False (talked_session, no_files))) =
       [\<lparr>role = ''user'', content = [104, 105]\<rparr>,
        \<lparr>role = ''assistant'', content = [98, 108, 117, 101]\<rparr>,
        \<lparr>role = ''user'', content = [63]\<rparr>,
        \<lparr>role = ''assistant'', content = [98, 108, 117, 101]\<rparr>]
   \<and> length (transcript (fst (main demo_env ''sk-demo'' [] (Some [63]) False
        (talked_session, no_files)))) = 4"
proof -
  have key: "''sk-demo'' \<noteq> []" by simp
  have upload1: "upload_block demo_env [] ready_session no_files = Inr (ready_session, no_files, [])"
    by (rule upload_block_nothing)
  have engine1: "chat_engine ready_session = Some ([sky_document], 0)"
    by (simp add: ready_session_def)
  have q1: "[104, 105] \<noteq> ([] :: pystr)" by simp
  have chat1: "chat demo_env ([sky_document], 0) [104, 105] =
      (Inr [98, 108, 117, 101], ([sky_document], 1))"
    by (simp add: demo_env_def demo_chat_def sky_document_def)
  have run1: "main demo_env ''sk-demo'' [] (Some [104, 105]) False (ready_session, no_files) =
     (talked_session, no_files,
      [Chat_message ''user'' [104, 105], Chat_message ''assistant'' [98, 108, 117, 101]],
      Completed)"
    unfolding ready_session_def talked_session_def
    by (simp add: main_demo_turn) (simp add: sky_document_def)
  have upload2: "upload_block demo_env [] talked_session no_files =
      Inr (talked_session, no_files, [])"
    by (rule upload_block_nothing)
  have engine2: "chat_engine talked_session = Some ([sky_document], 1)"
    by (simp add: talked_session_def)
  have q2: "[63] \<noteq> ([] :: pystr)" by simp
  have chat2: "chat demo_env ([sky_document], 1) [63] =
      (Inr [98, 108, 117, 101], ([sky_document], 2))"
    by (simp add: demo_env_def demo_chat_def sky_document_def)
  have run2: "main demo_env ''sk-demo'' [] (Some [63]) False (talked_session, no_files) =
      (fst (main demo_env ''sk-demo'' [] (Some [63]) False (talked_session, no_files)),
       fst (snd (main demo_env ''sk-demo'' [] (Some [63]) False (talked_session, no_files))),
       fst (snd (snd (main demo_env ''sk-demo'' [] (Some [63]) False (talked_session, no_files)))),
       snd (snd (snd (main demo_env ''sk-demo'' [] (Some [63]) False (talked_session, no_files)))))"
    by simp
  have empty: "transcript ready_session = []"
    by (simp add: transcript_def ready_session_def)
  from successful_turns_append_pairs
    [OF key upload1 engine1 q1 chat1 run1 upload2 engine2 q2 chat2 run2] empty run1
  show ?thesis by simp
qed

end
